theory Spec2Isabelle
  imports Complex_Main "HOL-Library.Multiset"
begin

section \<open>Numbers, sides and signals\<close>

text \<open>
  The program is Python. Its prices, sizes and thresholds are Python floats, which are
  modelled as exact reals (the specification's decimals): rounding of binary floating
  point is outside the model. The one non-real value that the program itself can
  produce is the NaN that \<^verbatim>\<open>np.mean\<close> returns for an empty slice; the type
  \<open>npfloat\<close> keeps it apart, and every ordering comparison with NaN is false, as in
  Python. Sides and signals are the Python strings \<^verbatim>\<open>"BUY"\<close> and
  \<^verbatim>\<open>"SELL"\<close>; an absent signal or side is Python's \<^verbatim>\<open>None\<close>.
\<close>

datatype npfloat = NaN | Num real

fun np_le :: "npfloat \<Rightarrow> npfloat \<Rightarrow> bool" where
  "np_le (Num a) (Num b) = (a \<le> b)"
| "np_le _ _ = False"

fun np_lt :: "npfloat \<Rightarrow> npfloat \<Rightarrow> bool" where
  "np_lt (Num a) (Num b) = (a < b)"
| "np_lt _ _ = False"

definition np_ge :: "npfloat \<Rightarrow> npfloat \<Rightarrow> bool" where
  "np_ge a b = np_le b a"

definition np_gt :: "npfloat \<Rightarrow> npfloat \<Rightarrow> bool" where
  "np_gt a b = np_lt b a"

section \<open>Risk manager (src/risk/risk\_manager.py)\<close>

text \<open>
  A recorded trade; the wall-clock timestamp of the source's record is not modelled.
\<close>

record trade =
  trade_side :: string
  trade_size :: real
  trade_price :: real
  trade_order_id :: "int option"

text \<open>
  The fields of \<^verbatim>\<open>RiskManager\<close>: the limits given at construction and the
  mutable session state. The API client, whose \<^verbatim>\<open>consecutive_errors\<close>
  counter the manager reads, is a separate object and is passed where it is read.
\<close>

record risk_manager =
  stop_loss :: real
  take_profit :: real
  max_position_size :: real
  max_reversal_count :: int
  max_consecutive_errors :: int
  reversal_count :: int
  last_order_side :: "string option"
  trade_history :: "trade list"

text \<open>\<^verbatim>\<open>RiskManager.__init__\<close>: the state a fresh manager starts in.\<close>

definition new_risk_manager :: "real \<Rightarrow> real \<Rightarrow> real \<Rightarrow> int \<Rightarrow> int \<Rightarrow> risk_manager" where
  "new_risk_manager sl tp mps mrc mce =
     \<lparr>stop_loss = sl, take_profit = tp, max_position_size = mps,
      max_reversal_count = mrc, max_consecutive_errors = mce,
      reversal_count = 0, last_order_side = None, trade_history = []\<rparr>"

text \<open>
  \<^verbatim>\<open>check_stop_loss\<close>, lines 64 to 72: the value \<^verbatim>\<open>loss_jpy\<close>. Both
  arms of the source's conditional conversion multiply by the current price.
\<close>

definition loss_jpy :: "real \<Rightarrow> real \<Rightarrow> string \<Rightarrow> real \<Rightarrow> real" where
  "loss_jpy current_price entry_price side sz =
     (let loss = (if side = ''BUY'' then (entry_price - current_price) * sz
                  else (current_price - entry_price) * sz)
      in (if side = ''BUY'' then loss * current_price else loss * current_price))"

definition check_stop_loss :: "risk_manager \<Rightarrow> real \<Rightarrow> real \<Rightarrow> string \<Rightarrow> real \<Rightarrow> bool" where
  "check_stop_loss rm current_price entry_price side sz =
     (if loss_jpy current_price entry_price side sz \<ge> stop_loss rm then True else False)"

text \<open>\<^verbatim>\<open>check_take_profit\<close>, lines 93 to 101: the value \<^verbatim>\<open>profit_jpy\<close>.\<close>

definition profit_jpy :: "real \<Rightarrow> real \<Rightarrow> string \<Rightarrow> real \<Rightarrow> real" where
  "profit_jpy current_price entry_price side sz =
     (let profit = (if side = ''BUY'' then (current_price - entry_price) * sz
                    else (entry_price - current_price) * sz)
      in (if side = ''BUY'' then profit * current_price else profit * current_price))"

definition check_take_profit :: "risk_manager \<Rightarrow> real \<Rightarrow> real \<Rightarrow> string \<Rightarrow> real \<Rightarrow> bool" where
  "check_take_profit rm current_price entry_price side sz =
     (if profit_jpy current_price entry_price side sz \<ge> take_profit rm then True else False)"

definition check_position_size :: "risk_manager \<Rightarrow> real \<Rightarrow> bool" where
  "check_position_size rm sz = (if sz > max_position_size rm then False else True)"

text \<open>
  \<^verbatim>\<open>check_reversal_count\<close> mutates the manager; the model returns the result
  together with the manager after the call.
\<close>

definition check_reversal_count :: "risk_manager \<Rightarrow> string \<Rightarrow> bool \<times> risk_manager" where
  "check_reversal_count rm side =
     (let rm1 = (if last_order_side rm \<noteq> None \<and> last_order_side rm \<noteq> Some side
                 then rm\<lparr>reversal_count := reversal_count rm + 1\<rparr>
                 else rm\<lparr>reversal_count := 0\<rparr>);
          rm2 = rm1\<lparr>last_order_side := Some side\<rparr>
      in (if reversal_count rm2 \<ge> max_reversal_count rm2 then (False, rm2) else (True, rm2)))"

text \<open>
  \<^verbatim>\<open>check_consecutive_errors\<close> reads the client's live counter, here the
  argument \<open>error_count\<close>.
\<close>

definition check_consecutive_errors :: "risk_manager \<Rightarrow> int \<Rightarrow> bool" where
  "check_consecutive_errors rm error_count =
     (if error_count \<ge> max_consecutive_errors rm then False else True)"

definition record_trade :: "risk_manager \<Rightarrow> string \<Rightarrow> real \<Rightarrow> real \<Rightarrow> int option \<Rightarrow> risk_manager" where
  "record_trade rm side sz price order_id =
     rm\<lparr>trade_history := trade_history rm @
        [\<lparr>trade_side = side, trade_size = sz, trade_price = price,
          trade_order_id = order_id\<rparr>]\<rparr>"

definition reset_reversal_count :: "risk_manager \<Rightarrow> risk_manager" where
  "reset_reversal_count rm = rm\<lparr>reversal_count := 0\<rparr>"

text \<open>
  A sequence of \<^verbatim>\<open>check_reversal_count\<close> calls on one manager: the result of
  each call paired with the counter after it, and the manager after the last call.
\<close>

fun reversal_calls :: "risk_manager \<Rightarrow> string list \<Rightarrow> (bool \<times> int) list \<times> risk_manager" where
  "reversal_calls rm [] = ([], rm)"
| "reversal_calls rm (side # sides) =
     (let (ok, rm') = check_reversal_count rm side;
          (rest, rm'') = reversal_calls rm' sides
      in ((ok, reversal_count rm') # rest, rm''))"

section \<open>Moving-average strategy (src/strategy/moving\_average.py)\<close>

subsection \<open>Python slices and the mean\<close>

text \<open>
  \<^verbatim>\<open>xs[i:]\<close> and \<^verbatim>\<open>xs[i:j]\<close> on a sequence of length \<open>n\<close>: a negative bound
  counts from the end and is clipped at 0, a non-negative one is clipped at \<open>n\<close>.
  So \<^verbatim>\<open>xs[-0:]\<close> is the whole sequence, not its last zero elements.
\<close>

definition py_bound :: "nat \<Rightarrow> int \<Rightarrow> nat" where
  "py_bound n i = (if i < 0 then nat (max (int n + i) 0) else nat (min i (int n)))"

definition py_slice_from :: "'a list \<Rightarrow> int \<Rightarrow> 'a list" where
  "py_slice_from xs i = drop (py_bound (length xs) i) xs"

definition py_slice :: "'a list \<Rightarrow> int \<Rightarrow> int \<Rightarrow> 'a list" where
  "py_slice xs i j = drop (py_bound (length xs) i) (take (py_bound (length xs) j) xs)"

text \<open>\<^verbatim>\<open>np.mean\<close>: NaN on an empty array.\<close>

definition np_mean :: "real list \<Rightarrow> npfloat" where
  "np_mean xs = (if xs = [] then NaN else Num (sum_list xs / real (length xs)))"

subsection \<open>Candle frames\<close>

text \<open>
  A raw exchange record has string-valued fields. The coercion of one field,
  \<^verbatim>\<open>pd.to_numeric(..., errors='coerce')\<close>, is library code: it is the parameter
  \<open>to_numeric\<close>, which yields \<open>None\<close> where pandas yields NaN. Every record is
  taken to carry all six keys.
\<close>

record kline =
  kl_openTime :: string
  kl_open :: string
  kl_high :: string
  kl_low :: string
  kl_close :: string
  kl_volume :: string

text \<open>
  A row of the data frame after the coercion and \<^verbatim>\<open>dropna\<close>: the five columns
  of the \<^verbatim>\<open>subset\<close> are numbers, the volume may still be NaN.
\<close>

record candle =
  openTime :: real
  open_v :: real
  high_v :: real
  low_v :: real
  close_v :: real
  volume_v :: "real option"

text \<open>Lines 76 to 84 for one row: coerce the six columns, drop the row on a NaN.\<close>

definition coerce_row :: "(string \<Rightarrow> real option) \<Rightarrow> kline \<Rightarrow> candle option" where
  "coerce_row to_numeric k =
     (case (to_numeric (kl_open k), to_numeric (kl_high k), to_numeric (kl_low k),
            to_numeric (kl_close k), to_numeric (kl_openTime k)) of
        (Some o', Some h, Some l, Some c, Some t) \<Rightarrow>
          Some \<lparr>openTime = t, open_v = o', high_v = h, low_v = l, close_v = c,
                volume_v = to_numeric (kl_volume k)\<rparr>
      | _ \<Rightarrow> None)"

text \<open>
  \<^verbatim>\<open>DataFrame.tail(n)\<close>: no rows for \<open>n = 0\<close>, otherwise the slice
  \<^verbatim>\<open>[-n:]\<close>.
\<close>

definition df_tail :: "'a list \<Rightarrow> int \<Rightarrow> 'a list" where
  "df_tail df n = (if n = 0 then [] else py_slice_from df (- n))"

text \<open>
  Lines 72 to 93 of \<^verbatim>\<open>_get_klines_data\<close>, on a non-empty list of raw records.
  \<^verbatim>\<open>sort_values\<close> orders the rows by \<^verbatim>\<open>openTime\<close> and does nothing else; it
  is modelled by \<open>sort_key\<close>. The library leaves the order among rows of equal key to
  its sorting algorithm, where \<open>sort_key\<close> keeps the given order; no property below
  depends on that order.
\<close>

definition klines_frame :: "(string \<Rightarrow> real option) \<Rightarrow> int \<Rightarrow> kline list \<Rightarrow> candle list" where
  "klines_frame to_numeric cnt klines =
     (let df = List.map_filter (coerce_row to_numeric) klines;
          df = sort_key openTime df
      in if int (length df) > cnt then df_tail df cnt else df)"

text \<open>
  \<^verbatim>\<open>_get_klines_data\<close>. The two requests, for today and for yesterday, are the
  arguments \<open>today\<close> and \<open>yesterday\<close>: \<open>None\<close> when the request raises, otherwise
  the list under \<^verbatim>\<open>"data"\<close>. Any exception gives the empty frame.
\<close>

definition get_klines_data ::
  "(string \<Rightarrow> real option) \<Rightarrow> kline list option \<Rightarrow> kline list option \<Rightarrow> int \<Rightarrow> candle list" where
  "get_klines_data to_numeric today yesterday cnt =
     (case today of
        None \<Rightarrow> []
      | Some klines \<Rightarrow>
          (case (if klines = [] then yesterday else Some klines) of
             None \<Rightarrow> []
           | Some klines' \<Rightarrow>
               if klines' = [] then [] else klines_frame to_numeric cnt klines'))"

subsection \<open>Averages and the signal\<close>

record strategy =
  short_period :: int
  long_period :: int
  last_signal :: "string option"

text \<open>
  \<^verbatim>\<open>calculate_moving_averages\<close>; the pair \<^verbatim>\<open>(None, None)\<close> is \<open>None\<close>.
\<close>

definition calculate_moving_averages :: "strategy \<Rightarrow> candle list \<Rightarrow> (npfloat \<times> npfloat) option" where
  "calculate_moving_averages st df =
     (if df = [] \<or> int (length df) < long_period st then None
      else (let closes = map close_v df;
                short_ma = np_mean (py_slice_from closes (- short_period st));
                long_ma = np_mean (py_slice_from closes (- long_period st))
            in Some (short_ma, long_ma)))"

text \<open>\<^verbatim>\<open>get_signal\<close>, lines 143 to 149: the previous pair.\<close>

definition previous_averages :: "strategy \<Rightarrow> candle list \<Rightarrow> npfloat \<Rightarrow> npfloat \<Rightarrow> npfloat \<times> npfloat" where
  "previous_averages st df short_ma long_ma =
     (if int (length df) \<ge> long_period st + 1
      then (np_mean (py_slice (map close_v df) (- (short_period st + 1)) (- 1)),
            np_mean (py_slice (map close_v df) (- (long_period st + 1)) (- 1)))
      else (short_ma, long_ma))"

text \<open>
  \<^verbatim>\<open>get_signal\<close>, lines 156 to 169: the crossover test on the two pairs, with the
  update of \<^verbatim>\<open>last_signal\<close>.
\<close>

definition cross_signal ::
  "strategy \<Rightarrow> npfloat \<Rightarrow> npfloat \<Rightarrow> npfloat \<Rightarrow> npfloat \<Rightarrow> string option \<times> strategy" where
  "cross_signal st prev_short_ma prev_long_ma short_ma long_ma =
     (if np_le prev_short_ma prev_long_ma \<and> np_gt short_ma long_ma
      then (Some ''BUY'', st\<lparr>last_signal := Some ''BUY''\<rparr>)
      else if np_ge prev_short_ma prev_long_ma \<and> np_lt short_ma long_ma
      then (Some ''SELL'', st\<lparr>last_signal := Some ''SELL''\<rparr>)
      else (None, st))"

text \<open>\<^verbatim>\<open>get_signal\<close> on the frame that \<^verbatim>\<open>_get_klines_data\<close> returned.\<close>

definition signal_of_frame :: "strategy \<Rightarrow> candle list \<Rightarrow> string option \<times> strategy" where
  "signal_of_frame st df =
     (if df = [] then (None, st)
      else (case calculate_moving_averages st df of
              None \<Rightarrow> (None, st)
            | Some (short_ma, long_ma) \<Rightarrow>
                (let (prev_short_ma, prev_long_ma) = previous_averages st df short_ma long_ma
                 in cross_signal st prev_short_ma prev_long_ma short_ma long_ma)))"

definition get_signal ::
  "(string \<Rightarrow> real option) \<Rightarrow> kline list option \<Rightarrow> kline list option \<Rightarrow> strategy
     \<Rightarrow> string option \<times> strategy" where
  "get_signal to_numeric today yesterday st =
     signal_of_frame st (get_klines_data to_numeric today yesterday (long_period st + 20))"

section \<open>Trading bot (src/main.py)\<close>

subsection \<open>The exchange and the bot's state\<close>

text \<open>
  A request through \<^verbatim>\<open>_make_private_request\<close> either returns its data, or fails
  after the HTTP exchange succeeded (API status not 0), or fails in the HTTP exchange.
  The client's \<^verbatim>\<open>consecutive_errors\<close> is reset to 0 once the HTTP exchange has
  succeeded and is incremented by every exception. Public requests (status, ticker,
  candles) leave the counter alone.
\<close>

datatype 'a private_reply = Replied 'a | ApiError string | RequestFailed string

fun private_errors :: "'a private_reply \<Rightarrow> int \<Rightarrow> int" where
  "private_errors (Replied _) n = 0"
| "private_errors (ApiError _) n = 0 + 1"
| "private_errors (RequestFailed _) n = n + 1"

text \<open>
  An open position as the exchange lists it. \<^verbatim>\<open>float(...)\<close> of its size or price
  raises on a malformed value: such a value is \<open>None\<close>.
\<close>

record position =
  positionId :: int
  pos_side :: string
  pos_size :: "real option"
  pos_price :: "real option"

text \<open>
  The exchange as the run sees it. \<open>ticker_reply n\<close> is what the call number \<open>n\<close>
  of \<^verbatim>\<open>get_current_price\<close> returns (\<open>None\<close> for a failed request or an absent
  price), \<open>order_reply n\<close> the reply to the call number \<open>n\<close> of
  \<^verbatim>\<open>place_order\<close>; the other requests happen at most once in a run.
\<close>

record exchange =
  status_reply :: "string option"
  positions_reply :: "position list private_reply"
  ticker_reply :: "nat \<Rightarrow> real option"
  klines_today :: "kline list option"
  klines_yesterday :: "kline list option"
  order_reply :: "nat \<Rightarrow> int option private_reply"
  assets_reply :: "unit private_reply"

text \<open>An order as passed to \<^verbatim>\<open>place_order\<close>.\<close>

record order_request =
  or_side :: string
  or_execution_type :: string
  or_size :: real
  or_price :: "int option"

text \<open>A row of the CSV trade history (without its timestamp).\<close>

record trade_data =
  td_side :: string
  td_size :: real
  td_price :: real
  td_order_id :: "int option"
  td_signal :: string
  td_status :: string
  td_error_message :: string

text \<open>
  The calls that a run makes, in their order: the model appends an event at each call
  of the named method, so that the order and the number of the calls can be stated.
\<close>

datatype event =
    EvTicker "real option"
  | EvStopLoss int real bool
  | EvTakeProfit int real bool
  | EvClose int
  | EvOrder order_request
  | EvAssets

text \<open>
  \<^verbatim>\<open>TradingBot\<close> with its collaborators: the risk manager, the strategy, the
  client's error counter, the configured order, the rows appended to the CSV file, the
  orders sent, the number of ticker calls made and the calls so far. Writing the CSV
  file is taken to succeed.
\<close>

record bot =
  risk :: risk_manager
  strat :: strategy
  consecutive_errors :: int
  order_type :: string
  amount :: real
  csv :: "trade_data list"
  orders :: "order_request list"
  n_ticker :: nat
  calls :: "event list"

datatype outcome = Exit int bot | Return bot

subsection \<open>Collaborator calls\<close>

definition get_current_price :: "exchange \<Rightarrow> bot \<Rightarrow> real option \<times> bot" where
  "get_current_price ex b =
     (let p = ticker_reply ex (n_ticker b)
      in (p, b\<lparr>n_ticker := n_ticker b + 1, calls := calls b @ [EvTicker p]\<rparr>))"

text \<open>\<^verbatim>\<open>place_order\<close>: the order id on success, the exception's message otherwise.\<close>

definition place_order :: "exchange \<Rightarrow> bot \<Rightarrow> order_request \<Rightarrow> (string + int option) \<times> bot" where
  "place_order ex b req =
     (let r = order_reply ex (length (orders b));
          b' = b\<lparr>orders := orders b @ [req],
                 consecutive_errors := private_errors r (consecutive_errors b),
                 calls := calls b @ [EvOrder req]\<rparr>
      in (case r of
            Replied order_id \<Rightarrow> (Inr order_id, b')
          | ApiError m \<Rightarrow> (Inl (''API Error: '' @ m), b')
          | RequestFailed m \<Rightarrow> (Inl m, b')))"

text \<open>
  \<^verbatim>\<open>RiskManager.get_current_positions\<close>: the list on success, the empty list
  on any exception.
\<close>

definition get_current_positions :: "exchange \<Rightarrow> bot \<Rightarrow> position list \<times> bot" where
  "get_current_positions ex b =
     (let r = positions_reply ex;
          b' = b\<lparr>consecutive_errors := private_errors r (consecutive_errors b)\<rparr>
      in (case r of Replied ps \<Rightarrow> (ps, b') | _ \<Rightarrow> ([], b')))"

definition save_trade_history :: "bot \<Rightarrow> trade_data \<Rightarrow> bot" where
  "save_trade_history b row = b\<lparr>csv := csv b @ [row]\<rparr>"

text \<open>Python's \<^verbatim>\<open>int(x)\<close> on a float: truncation towards zero.\<close>

definition py_int :: "real \<Rightarrow> int" where
  "py_int x = (if x \<ge> 0 then \<lfloor>x\<rfloor> else \<lceil>x\<rceil>)"

subsection \<open>Closing positions\<close>

text \<open>
  \<^verbatim>\<open>close_position\<close>. The price is fetched again here; without a price the
  method returns before any order or record. An exception of \<^verbatim>\<open>place_order\<close> is
  recorded as an \<^verbatim>\<open>ERROR_CLOSE\<close> row that carries the side of the position.
\<close>

definition close_position :: "exchange \<Rightarrow> bot \<Rightarrow> int \<Rightarrow> string \<Rightarrow> real \<Rightarrow> bot" where
  "close_position ex b position_id side sz =
     (let b0 = b\<lparr>calls := calls b @ [EvClose position_id]\<rparr>;
          close_side = (if side = ''BUY'' then ''SELL'' else ''BUY'');
          (current_price, b1) = get_current_price ex b0
      in (case current_price of
            None \<Rightarrow> b1
          | Some cp \<Rightarrow>
              (let (response, b2) =
                     place_order ex b1
                       \<lparr>or_side = close_side, or_execution_type = ''MARKET'',
                        or_size = sz, or_price = None\<rparr>
               in (case response of
                     Inr order_id \<Rightarrow>
                       (let b3 = save_trade_history b2
                                   \<lparr>td_side = close_side, td_size = sz, td_price = cp,
                                    td_order_id = order_id, td_signal = ''AUTO_CLOSE'',
                                    td_status = ''CLOSED'', td_error_message = []\<rparr>
                        in b3\<lparr>risk := record_trade (risk b3) close_side sz cp order_id\<rparr>)
                   | Inl e \<Rightarrow>
                       save_trade_history b2
                         \<lparr>td_side = side, td_size = sz, td_price = 0,
                          td_order_id = None, td_signal = ''AUTO_CLOSE'',
                          td_status = ''ERROR_CLOSE'', td_error_message = e\<rparr>))))"

text \<open>
  The loop of \<^verbatim>\<open>check_existing_positions\<close> over the positions, at the price
  \<open>current_price\<close> fetched before it. A \<^verbatim>\<open>float(...)\<close> that raises is caught by
  the method's \<^verbatim>\<open>except\<close> clause, which ends the loop.
\<close>

fun positions_loop :: "exchange \<Rightarrow> real \<Rightarrow> bot \<Rightarrow> position list \<Rightarrow> bot" where
  "positions_loop ex current_price b [] = b"
| "positions_loop ex current_price b (pos # rest) =
     (case pos_size pos of
        None \<Rightarrow> b
      | Some sz \<Rightarrow>
          (case pos_price pos of
             None \<Rightarrow> b
           | Some entry_price \<Rightarrow>
               (let sl = check_stop_loss (risk b) current_price entry_price (pos_side pos) sz;
                    b1 = b\<lparr>calls := calls b @ [EvStopLoss (positionId pos) current_price sl]\<rparr>
                in if sl
                   then positions_loop ex current_price
                          (close_position ex b1 (positionId pos) (pos_side pos) sz) rest
                   else
                     (let tp = check_take_profit (risk b1) current_price entry_price
                                 (pos_side pos) sz;
                          b2 = b1\<lparr>calls := calls b1 @
                                  [EvTakeProfit (positionId pos) current_price tp]\<rparr>
                      in if tp
                         then positions_loop ex current_price
                                (close_position ex b2 (positionId pos) (pos_side pos) sz) rest
                         else positions_loop ex current_price b2 rest))))"

definition check_existing_positions :: "exchange \<Rightarrow> bot \<Rightarrow> bot" where
  "check_existing_positions ex b =
     (let (positions, b0) = get_current_positions ex b
      in if positions = [] then b0
         else (let (current_price, b1) = get_current_price ex b0
               in (case current_price of
                     None \<Rightarrow> b1
                   | Some cp \<Rightarrow> positions_loop ex cp b1 positions)))"

subsection \<open>Placing the order of a signal\<close>

text \<open>
  \<^verbatim>\<open>execute_trade\<close>. \<^verbatim>\<open>sys.exit(1)\<close> raises \<^verbatim>\<open>SystemExit\<close>, which no
  \<^verbatim>\<open>except Exception\<close> clause of the program catches: the process ends with
  status 1.
\<close>

definition execute_trade :: "exchange \<Rightarrow> bot \<Rightarrow> string \<Rightarrow> outcome" where
  "execute_trade ex b signal =
     (if \<not> check_consecutive_errors (risk b) (consecutive_errors b) then Exit 1 b
      else
        (let (ok, rm) = check_reversal_count (risk b) signal;
             b1 = b\<lparr>risk := rm\<rparr>
         in if \<not> ok then Return b1
            else if \<not> check_position_size (risk b1) (amount b1) then Return b1
            else
              (let (current_price, b2) = get_current_price ex b1
               in (case current_price of
                     None \<Rightarrow> Return b2
                   | Some cp \<Rightarrow>
                       (let price = (if order_type b2 = ''MARKET'' then None
                                     else Some (py_int cp));
                            (response, b3) =
                              place_order ex b2
                                \<lparr>or_side = signal, or_execution_type = order_type b2,
                                 or_size = amount b2, or_price = price\<rparr>
                        in (case response of
                              Inr order_id \<Rightarrow>
                                (let b4 = save_trade_history b3
                                            \<lparr>td_side = signal, td_size = amount b3,
                                             td_price = cp, td_order_id = order_id,
                                             td_signal = ''MOVING_AVERAGE_CROSS'',
                                             td_status = ''ORDERED'',
                                             td_error_message = []\<rparr>
                                 in Return (b4\<lparr>risk := record_trade (risk b4) signal
                                                          (amount b4) cp order_id\<rparr>))
                            | Inl e \<Rightarrow>
                                Return (save_trade_history b3
                                          \<lparr>td_side = signal, td_size = amount b3,
                                           td_price = 0, td_order_id = None,
                                           td_signal = ''MOVING_AVERAGE_CROSS'',
                                           td_status = ''ERROR'',
                                           td_error_message = e\<rparr>)))))))"

subsection \<open>One run\<close>

text \<open>The balance display that ends a run: one private request, its result only logged.\<close>

definition show_assets :: "exchange \<Rightarrow> bot \<Rightarrow> bot" where
  "show_assets ex b =
     b\<lparr>consecutive_errors := private_errors (assets_reply ex) (consecutive_errors b),
       calls := calls b @ [EvAssets]\<rparr>"

text \<open>
  \<^verbatim>\<open>run_once\<close> under \<^verbatim>\<open>main\<close>; \<open>observe\<close> is its lines 306 to 315, from the
  position check to the signal. An exception of the status request is raised
  again by \<^verbatim>\<open>run_once\<close> and turned into exit status 1 by \<^verbatim>\<open>main\<close>.
\<close>

definition observe :: "(string \<Rightarrow> real option) \<Rightarrow> exchange \<Rightarrow> bot \<Rightarrow> string option \<times> bot" where
  "observe to_numeric ex b =
     (let b1 = check_existing_positions ex b;
          (current_price, b2) = get_current_price ex b1;
          (signal, st) = get_signal to_numeric (klines_today ex) (klines_yesterday ex)
                           (strat b2)
      in (signal, b2\<lparr>strat := st\<rparr>))"

definition run_once :: "(string \<Rightarrow> real option) \<Rightarrow> exchange \<Rightarrow> bot \<Rightarrow> outcome" where
  "run_once to_numeric ex b =
     (case status_reply ex of
        None \<Rightarrow> Exit 1 b
      | Some status \<Rightarrow>
          if status \<noteq> ''OPEN'' then Return b
          else
            (let (signal, b3) = observe to_numeric ex b
             in (case signal of
                   None \<Rightarrow> Return (show_assets ex b3)
                 | Some sg \<Rightarrow>
                     (case execute_trade ex b3 sg of
                        Exit code b4 \<Rightarrow> Exit code b4
                      | Return b4 \<Rightarrow> Return (show_assets ex b4)))))"

section \<open>The specification's notions\<close>

text \<open>
  The last \<open>k\<close> elements of a sequence and the unweighted arithmetic mean, as the
  specification words the moving averages.
\<close>

definition last_n :: "nat \<Rightarrow> 'a list \<Rightarrow> 'a list" where
  "last_n k xs = drop (length xs - k) xs"

definition arith_mean :: "real list \<Rightarrow> real" where
  "arith_mean xs = sum_list xs / real (length xs)"

text \<open>
  The specification's \<open>compute\<close>: the sentinel below \<open>long_window\<close> closes, otherwise
  the means of the last \<open>short_window\<close> and of the last \<open>long_window\<close> closes.
\<close>

definition spec_compute :: "nat \<Rightarrow> nat \<Rightarrow> real list \<Rightarrow> (npfloat \<times> npfloat) option" where
  "spec_compute short_window long_window closes =
     (if length closes < long_window then None
      else Some (Num (arith_mean (last_n short_window closes)),
                 Num (arith_mean (last_n long_window closes))))"

text \<open>
  The specification's candle series: at most one candle per \<open>open_time\<close>, in strictly
  increasing order of \<open>open_time\<close>.
\<close>

definition spec_series :: "candle list \<Rightarrow> bool" where
  "spec_series df = sorted_wrt (<) (map openTime df)"

text \<open>
  The specification's single price fetch of the existing-position check: the check
  makes exactly one ticker call.
\<close>

definition single_price_fetch :: "exchange \<Rightarrow> bot \<Rightarrow> bool" where
  "single_price_fetch ex b = (n_ticker (check_existing_positions ex b) = n_ticker b + 1)"

text \<open>
  The calls that the specification's position check makes for the positions, at one
  price: stop-loss first, take-profit only after a stop-loss check that was false, a
  close at the first check that is true.
\<close>

fun decision_calls :: "risk_manager \<Rightarrow> real \<Rightarrow> position list \<Rightarrow> event list" where
  "decision_calls rm cp [] = []"
| "decision_calls rm cp (pos # rest) =
     (case (pos_size pos, pos_price pos) of
        (Some sz, Some entry_price) \<Rightarrow>
          (if check_stop_loss rm cp entry_price (pos_side pos) sz
           then [EvStopLoss (positionId pos) cp True, EvClose (positionId pos)]
           else if check_take_profit rm cp entry_price (pos_side pos) sz
           then [EvStopLoss (positionId pos) cp False, EvTakeProfit (positionId pos) cp True,
                 EvClose (positionId pos)]
           else [EvStopLoss (positionId pos) cp False, EvTakeProfit (positionId pos) cp False])
          @ decision_calls rm cp rest
      | _ \<Rightarrow> [])"

text \<open>The calls that go to the exchange, and the close actions.\<close>

fun exchange_call :: "event \<Rightarrow> bool" where
  "exchange_call (EvTicker _) = True"
| "exchange_call (EvOrder _) = True"
| "exchange_call _ = False"

fun close_call :: "int \<Rightarrow> event \<Rightarrow> bool" where
  "close_call pid (EvClose q) = (q = pid)"
| "close_call pid _ = False"

fun close_action :: "event \<Rightarrow> bool" where
  "close_action (EvClose _) = True"
| "close_action _ = False"

fun check_call :: "event \<Rightarrow> bool" where
  "check_call (EvStopLoss _ _ _) = True"
| "check_call (EvTakeProfit _ _ _) = True"
| "check_call _ = False"

fun check_price :: "event \<Rightarrow> real option" where
  "check_price (EvStopLoss _ p _) = Some p"
| "check_price (EvTakeProfit _ p _) = Some p"
| "check_price _ = None"

definition state_of :: "outcome \<Rightarrow> bot" where
  "state_of r = (case r of Exit code b \<Rightarrow> b | Return b \<Rightarrow> b)"

section \<open>Sample data\<close>

definition flat_candle :: "real \<Rightarrow> real \<Rightarrow> candle" where
  "flat_candle t c =
     \<lparr>openTime = t, open_v = c, high_v = c, low_v = c, close_v = c, volume_v = None\<rparr>"

definition flat_kline :: "string \<Rightarrow> string \<Rightarrow> kline" where
  "flat_kline t c =
     \<lparr>kl_openTime = t, kl_open = c, kl_high = c, kl_low = c, kl_close = c, kl_volume = c\<rparr>"

definition sample_numeric :: "string \<Rightarrow> real option" where
  "sample_numeric = map_of [(''1'', 1), (''2'', 2), (''3'', 3), (''10'', 10), (''20'', 20)]"

text \<open>Three candles whose last close rises above a flat average.\<close>

definition sample_klines :: "kline list" where
  "sample_klines = [flat_kline ''1'' ''10'', flat_kline ''2'' ''10'', flat_kline ''3'' ''20'']"

definition sample_strategy :: "int \<Rightarrow> int \<Rightarrow> strategy" where
  "sample_strategy s l = \<lparr>short_period = s, long_period = l, last_signal = None\<rparr>"

definition sample_bot :: bot where
  "sample_bot =
     \<lparr>risk = new_risk_manager 10000 20000 (1 / 100) 5 3,
      strat = sample_strategy 5 10,
      consecutive_errors = 0, order_type = ''MARKET'', amount = 1 / 1000,
      csv = [], orders = [], n_ticker = 0, calls = []\<rparr>"

definition sample_exchange :: "position list \<Rightarrow> (nat \<Rightarrow> real option) \<Rightarrow> exchange" where
  "sample_exchange ps tick =
     \<lparr>status_reply = Some ''OPEN'', positions_reply = Replied ps, ticker_reply = tick,
      klines_today = Some [], klines_yesterday = Some [],
      order_reply = (\<lambda>n. Replied (Some (int n + 1))), assets_reply = Replied ()\<rparr>"

definition sample_position :: position where
  "sample_position =
     \<lparr>positionId = 7, pos_side = ''BUY'', pos_size = Some (1 / 100),
      pos_price = Some 5000000\<rparr>"

section \<open>Properties of the risk manager\<close>

text \<open>
  Claim C2. For a BUY position \<^verbatim>\<open>check_stop_loss\<close> is true exactly when
  \<open>(entry_price - current_price) * size * current_price\<close> reaches the stop-loss
  threshold, for a SELL position exactly when
  \<open>(current_price - entry_price) * size * current_price\<close> does;
  \<^verbatim>\<open>check_take_profit\<close> is true exactly when the same product with the two
  prices exchanged reaches the take-profit threshold. For a BUY position entered at
  5,000,000, with the price at 4,900,000 and size 0.01, the computed loss is
  4,900,000,000, and the check against a stop-loss of 10,000 is true.
\<close>

theorem stop_loss_take_profit_formula:
  "check_stop_loss rm c e ''BUY'' s = ((e - c) * s * c \<ge> stop_loss rm)
   \<and> check_stop_loss rm c e ''SELL'' s = ((c - e) * s * c \<ge> stop_loss rm)
   \<and> check_take_profit rm c e ''BUY'' s = ((c - e) * s * c \<ge> take_profit rm)
   \<and> check_take_profit rm c e ''SELL'' s = ((e - c) * s * c \<ge> take_profit rm)
   \<and> loss_jpy 4900000 5000000 ''BUY'' (1 / 100) = 4900000000
   \<and> check_stop_loss (new_risk_manager 10000 tp mps mrc mce) 4900000 5000000 ''BUY'' (1 / 100)"
  by (simp add: check_stop_loss_def check_take_profit_def loss_jpy_def profit_jpy_def new_risk_manager_def)

text \<open>
  Claim C3. \<^verbatim>\<open>check_reversal_count\<close> increments the counter when a last side is
  set and differs from the given side and resets it to 0 otherwise; it always stores
  the given side as the last side; it returns false exactly when the counter after the
  update has reached \<^verbatim>\<open>max_reversal_count\<close>. From a fresh manager with a maximum of
  4, the calls BUY, BUY, SELL, BUY, SELL, BUY leave the counter at 0, 0, 1, 2, 3, 4 and
  only the sixth call returns false.
\<close>

theorem reversal_count_steps:
  "reversal_count (snd (check_reversal_count rm side))
     = (if last_order_side rm \<noteq> None \<and> last_order_side rm \<noteq> Some side
        then reversal_count rm + 1 else 0)
   \<and> last_order_side (snd (check_reversal_count rm side)) = Some side
   \<and> (fst (check_reversal_count rm side) = False)
       = (reversal_count (snd (check_reversal_count rm side)) \<ge> max_reversal_count rm)
   \<and> fst (reversal_calls (new_risk_manager sl tp mps 4 mce)
             [''BUY'', ''BUY'', ''SELL'', ''BUY'', ''SELL'', ''BUY''])
       = [(True, 0), (True, 0), (True, 1), (True, 2), (True, 3), (False, 4)]"
  by (simp add: check_reversal_count_def Let_def new_risk_manager_def)

text \<open>
  Claim C9. The computed profit is the negation of the computed loss for the same
  inputs, whatever the side; so with a positive stop-loss and a positive take-profit
  threshold the two checks are never both true.
\<close>

theorem stop_loss_excludes_take_profit:
  assumes "stop_loss rm > 0" and "take_profit rm > 0"
  shows "profit_jpy c e side s = - loss_jpy c e side s
         \<and> \<not> (check_stop_loss rm c e side s \<and> check_take_profit rm c e side s)"
proof -
  have neg: "profit_jpy c e side s = - loss_jpy c e side s"
    by (simp add: profit_jpy_def loss_jpy_def Let_def algebra_simps)
  have "\<not> (loss_jpy c e side s \<ge> stop_loss rm \<and> - loss_jpy c e side s \<ge> take_profit rm)"
    using assms by linarith
  with neg show ?thesis
    by (simp add: check_stop_loss_def check_take_profit_def)
qed

theorem stop_loss_excludes_take_profit_witness:
  "stop_loss (new_risk_manager 10000 20000 (1 / 100) 5 3) > 0
   \<and> take_profit (new_risk_manager 10000 20000 (1 / 100) 5 3) > 0
   \<and> profit_jpy 4900000 5000000 ''BUY'' (1 / 100) = - loss_jpy 4900000 5000000 ''BUY'' (1 / 100)
   \<and> check_stop_loss (new_risk_manager 10000 20000 (1 / 100) 5 3) 4900000 5000000 ''BUY'' (1 / 100)
   \<and> \<not> check_take_profit (new_risk_manager 10000 20000 (1 / 100) 5 3) 4900000 5000000 ''BUY'' (1 / 100)"
proof -
  have h1: "stop_loss (new_risk_manager 10000 20000 (1 / 100) 5 3) > 0"
    by (simp add: new_risk_manager_def)
  have h2: "take_profit (new_risk_manager 10000 20000 (1 / 100) 5 3) > 0"
    by (simp add: new_risk_manager_def)
  have sl: "check_stop_loss (new_risk_manager 10000 20000 (1 / 100) 5 3) 4900000 5000000 ''BUY'' (1 / 100)"
    by (simp add: check_stop_loss_def loss_jpy_def new_risk_manager_def)
  from stop_loss_excludes_take_profit [OF h1 h2, of 4900000 5000000 "''BUY''" "1 / 100"] h1 h2 sl
  show ?thesis by blast
qed

section \<open>Properties of the strategy\<close>

text \<open>
  Claim C1. On four real averages the crossover test gives BUY exactly when
  \<open>prev_short \<le> prev_long\<close> and \<open>cur_short > cur_long\<close>, SELL exactly when
  \<open>prev_short \<ge> prev_long\<close> and \<open>cur_short < cur_long\<close>, and no signal exactly
  when neither holds. With \<open>prev_short = prev_long\<close> it gives BUY when
  \<open>cur_short > cur_long\<close> and SELL when \<open>cur_short < cur_long\<close>.
\<close>

theorem crossover_signal:
  "(fst (cross_signal st (Num ps) (Num pl) (Num cs) (Num cl)) = Some ''BUY'') = (ps \<le> pl \<and> cs > cl)
   \<and> (fst (cross_signal st (Num ps) (Num pl) (Num cs) (Num cl)) = Some ''SELL'') = (ps \<ge> pl \<and> cs < cl)
   \<and> (fst (cross_signal st (Num ps) (Num pl) (Num cs) (Num cl)) = None)
        = (\<not> (ps \<le> pl \<and> cs > cl) \<and> \<not> (ps \<ge> pl \<and> cs < cl))
   \<and> fst (cross_signal st (Num p) (Num p) (Num cs) (Num cl))
        = (if cs > cl then Some ''BUY'' else if cs < cl then Some ''SELL'' else None)"
  by (auto simp: cross_signal_def np_ge_def np_gt_def)

subsection \<open>Slices as windows\<close>

lemma py_slice_from_last_n:
  "1 \<le> k \<Longrightarrow> py_slice_from xs (- k) = last_n (nat k) xs"
  by (simp add: py_slice_from_def py_bound_def last_n_def nat_diff_distrib' max_def)

lemma py_slice_previous:
  assumes "1 \<le> k"
  shows "py_slice xs (- k - 1) (- 1) = last_n (nat k) (butlast xs)"
proof -
  have a: "py_bound (length xs) (- 1) = length xs - 1"
    by (simp add: py_bound_def max_def nat_diff_distrib')
  have b: "py_bound (length xs) (- k - 1) = length xs - 1 - nat k"
    using assms by (auto simp: py_bound_def max_def) 
  show ?thesis
    by (simp add: py_slice_def a b last_n_def butlast_conv_take)
qed

lemma np_mean_arith_mean: "xs \<noteq> [] \<Longrightarrow> np_mean xs = Num (arith_mean xs)"
  by (simp add: np_mean_def arith_mean_def)

lemma length_last_n: "length (last_n k xs) = min k (length xs)"
  by (simp add: last_n_def)

lemma last_n_nonempty: "0 < k \<Longrightarrow> xs \<noteq> [] \<Longrightarrow> last_n k xs \<noteq> []"
  by (cases xs) (auto simp: last_n_def)

lemma moving_averages_compute_general:
  assumes "1 \<le> short_period st" and "short_period st \<le> long_period st"
  shows "calculate_moving_averages st df
           = spec_compute (nat (short_period st)) (nat (long_period st)) (map close_v df)"
proof (cases "int (length df) < long_period st")
  case True
  then show ?thesis
    by (simp add: calculate_moving_averages_def spec_compute_def nat_less_iff)
next
  case False
  have l1: "1 \<le> long_period st" using assms by linarith
  with False have ne: "df \<noteq> []" by auto
  from False have ge: "\<not> length df < nat (long_period st)" by linarith
  have s: "np_mean (py_slice_from (map close_v df) (- short_period st))
             = Num (arith_mean (last_n (nat (short_period st)) (map close_v df)))"
    using assms(1) ne
    by (simp add: py_slice_from_last_n np_mean_arith_mean last_n_nonempty)
  have l: "np_mean (py_slice_from (map close_v df) (- long_period st))
             = Num (arith_mean (last_n (nat (long_period st)) (map close_v df)))"
    using l1 ne
    by (simp add: py_slice_from_last_n np_mean_arith_mean last_n_nonempty)
  show ?thesis
    using False ne ge by (simp add: calculate_moving_averages_def spec_compute_def s l Let_def)
qed

text \<open>
  Claim C4. With window lengths \<open>1 \<le> short_period \<le> long_period\<close>, the moving
  averages of a frame are the specification's \<open>compute\<close> on its closes: the sentinel
  when there are fewer than \<open>long_period\<close> closes, otherwise the unweighted
  arithmetic means of the last \<open>short_period\<close> and of the last \<open>long_period\<close>
  closes, windows of exactly these lengths.
\<close>

theorem moving_averages_compute:
  assumes "1 \<le> short_period st" and "short_period st \<le> long_period st"
  shows "calculate_moving_averages st df
           = spec_compute (nat (short_period st)) (nat (long_period st)) (map close_v df)
         \<and> (int (length df) < long_period st \<longrightarrow> calculate_moving_averages st df = None)
         \<and> (long_period st \<le> int (length df) \<longrightarrow>
              length (last_n (nat (short_period st)) (map close_v df)) = nat (short_period st)
              \<and> length (last_n (nat (long_period st)) (map close_v df)) = nat (long_period st))"
proof -
  have none: "int (length df) < long_period st \<longrightarrow> calculate_moving_averages st df = None"
    by (simp add: calculate_moving_averages_def)
  have len: "long_period st \<le> int (length df) \<longrightarrow>
              length (last_n (nat (short_period st)) (map close_v df)) = nat (short_period st)
              \<and> length (last_n (nat (long_period st)) (map close_v df)) = nat (long_period st)"
    using assms by (auto simp: length_last_n)
  from moving_averages_compute_general [OF assms] none len show ?thesis by blast
qed

theorem moving_averages_compute_witness:
  "1 \<le> short_period (sample_strategy 2 3)
   \<and> short_period (sample_strategy 2 3) \<le> long_period (sample_strategy 2 3)
   \<and> calculate_moving_averages (sample_strategy 2 3)
        [flat_candle 1 10, flat_candle 2 20, flat_candle 3 60] = Some (Num 40, Num 30)
   \<and> calculate_moving_averages (sample_strategy 2 3)
        [flat_candle 1 10, flat_candle 2 20] = None"
proof -
  have h1: "1 \<le> short_period (sample_strategy 2 3)" by (simp add: sample_strategy_def)
  have h2: "short_period (sample_strategy 2 3) \<le> long_period (sample_strategy 2 3)"
    by (simp add: sample_strategy_def)
  have a: "calculate_moving_averages (sample_strategy 2 3)
        [flat_candle 1 10, flat_candle 2 20, flat_candle 3 60] = Some (Num 40, Num 30)"
    using moving_averages_compute [OF h1 h2, of "[flat_candle 1 10, flat_candle 2 20, flat_candle 3 60]"]
    by (simp add: sample_strategy_def spec_compute_def last_n_def arith_mean_def flat_candle_def)
  have b: "calculate_moving_averages (sample_strategy 2 3)
        [flat_candle 1 10, flat_candle 2 20] = None"
    using moving_averages_compute [OF h1 h2, of "[flat_candle 1 10, flat_candle 2 20]"]
    by (simp add: sample_strategy_def spec_compute_def)
  from h1 h2 a b show ?thesis by blast
qed

text \<open>
  Claim C7. With window lengths \<open>1 \<le> short_period \<le> long_period\<close> and a current
  pair computed (so the frame has at least \<open>long_period\<close> rows): on fewer than
  \<open>long_period + 1\<close> rows the previous pair is the current pair; otherwise it is the
  pair of means over the last \<open>short_period\<close> and the last \<open>long_period\<close> closes of
  the frame without its final row, which is the pair that
  \<^verbatim>\<open>calculate_moving_averages\<close> computes on that shorter frame.
\<close>

theorem previous_pair:
  assumes "1 \<le> short_period st" and "short_period st \<le> long_period st"
    and "calculate_moving_averages st df = Some (short_ma, long_ma)"
  shows "long_period st \<le> int (length df)
         \<and> (int (length df) < long_period st + 1 \<longrightarrow>
               previous_averages st df short_ma long_ma = (short_ma, long_ma))
         \<and> (long_period st + 1 \<le> int (length df) \<longrightarrow>
               previous_averages st df short_ma long_ma
                 = (Num (arith_mean (last_n (nat (short_period st)) (butlast (map close_v df)))),
                    Num (arith_mean (last_n (nat (long_period st)) (butlast (map close_v df)))))
               \<and> calculate_moving_averages st (butlast df)
                   = Some (previous_averages st df short_ma long_ma)
               \<and> length (last_n (nat (short_period st)) (butlast (map close_v df)))
                   = nat (short_period st)
               \<and> length (last_n (nat (long_period st)) (butlast (map close_v df)))
                   = nat (long_period st))"
proof -
  have l1: "1 \<le> long_period st" using assms by linarith
  have ge: "long_period st \<le> int (length df)"
    using assms(3) by (auto simp: calculate_moving_averages_def split: if_splits)
  have short: "int (length df) < long_period st + 1 \<longrightarrow>
               previous_averages st df short_ma long_ma = (short_ma, long_ma)"
    by (simp add: previous_averages_def)
  have shifted: "previous_averages st df short_ma long_ma
                 = (Num (arith_mean (last_n (nat (short_period st)) (butlast (map close_v df)))),
                    Num (arith_mean (last_n (nat (long_period st)) (butlast (map close_v df)))))
               \<and> calculate_moving_averages st (butlast df)
                   = Some (previous_averages st df short_ma long_ma)
               \<and> length (last_n (nat (short_period st)) (butlast (map close_v df)))
                   = nat (short_period st)
               \<and> length (last_n (nat (long_period st)) (butlast (map close_v df)))
                   = nat (long_period st)"
    if long: "long_period st + 1 \<le> int (length df)"
  proof -
    from long l1 have ne: "butlast (map close_v df) \<noteq> []"
      by (cases df rule: rev_cases) auto
    have ps: "np_mean (py_slice (map close_v df) (- short_period st - 1) (- 1))
               = Num (arith_mean (last_n (nat (short_period st)) (butlast (map close_v df))))"
      using assms(1) ne
      by (simp only: py_slice_previous) (simp add: np_mean_arith_mean last_n_nonempty)
    have pl: "np_mean (py_slice (map close_v df) (- long_period st - 1) (- 1))
               = Num (arith_mean (last_n (nat (long_period st)) (butlast (map close_v df))))"
      using l1 ne
      by (simp only: py_slice_previous) (simp add: np_mean_arith_mean last_n_nonempty)
    have prev: "previous_averages st df short_ma long_ma
                 = (Num (arith_mean (last_n (nat (short_period st)) (butlast (map close_v df)))),
                    Num (arith_mean (last_n (nat (long_period st)) (butlast (map close_v df)))))"
      using long by (simp add: previous_averages_def ps pl)
    have len: "\<not> length (butlast df) < nat (long_period st)"
      using long by simp
    have calc: "calculate_moving_averages st (butlast df)
                 = Some (previous_averages st df short_ma long_ma)"
      using moving_averages_compute_general [OF assms(1) assms(2), of "butlast df"] len
      by (simp add: spec_compute_def prev map_butlast)
    have lens: "length (last_n (nat (short_period st)) (butlast (map close_v df)))
                   = nat (short_period st)
               \<and> length (last_n (nat (long_period st)) (butlast (map close_v df)))
                   = nat (long_period st)"
      using long assms by (auto simp: length_last_n)
    from prev calc lens show ?thesis by blast
  qed
  from ge short shifted show ?thesis by blast
qed

theorem previous_pair_witness:
  "1 \<le> short_period (sample_strategy 2 3)
   \<and> short_period (sample_strategy 2 3) \<le> long_period (sample_strategy 2 3)
   \<and> calculate_moving_averages (sample_strategy 2 3)
        [flat_candle 1 10, flat_candle 2 20, flat_candle 3 60] = Some (Num 40, Num 30)
   \<and> previous_averages (sample_strategy 2 3)
        [flat_candle 1 10, flat_candle 2 20, flat_candle 3 60] (Num 40) (Num 30)
        = (Num 40, Num 30)
   \<and> calculate_moving_averages (sample_strategy 2 3)
        [flat_candle 1 10, flat_candle 2 20, flat_candle 3 60, flat_candle 4 100]
        = Some (Num 80, Num 60)
   \<and> previous_averages (sample_strategy 2 3)
        [flat_candle 1 10, flat_candle 2 20, flat_candle 3 60, flat_candle 4 100] (Num 80) (Num 60)
        = (Num 40, Num 30)"
proof -
  let ?st = "sample_strategy 2 3"
  let ?d3 = "[flat_candle 1 10, flat_candle 2 20, flat_candle 3 60]"
  let ?d4 = "[flat_candle 1 10, flat_candle 2 20, flat_candle 3 60, flat_candle 4 100]"
  have h1: "1 \<le> short_period ?st" by (simp add: sample_strategy_def)
  have h2: "short_period ?st \<le> long_period ?st" by (simp add: sample_strategy_def)
  have c3: "calculate_moving_averages ?st ?d3 = Some (Num 40, Num 30)"
    by (simp add: calculate_moving_averages_def sample_strategy_def flat_candle_def
        py_slice_from_def py_bound_def np_mean_def)
  have c4: "calculate_moving_averages ?st ?d4 = Some (Num 80, Num 60)"
    by (simp add: calculate_moving_averages_def sample_strategy_def flat_candle_def
        py_slice_from_def py_bound_def np_mean_def)
  have l3: "int (length ?d3) < long_period ?st + 1" by (simp add: sample_strategy_def)
  have l4: "long_period ?st + 1 \<le> int (length ?d4)" by (simp add: sample_strategy_def)
  have p3: "previous_averages ?st ?d3 (Num 40) (Num 30) = (Num 40, Num 30)"
    using previous_pair [OF h1 h2 c3] l3 by blast
  have "previous_averages ?st ?d4 (Num 80) (Num 60)
          = (Num (arith_mean (last_n (nat (short_period ?st)) (butlast (map close_v ?d4)))),
             Num (arith_mean (last_n (nat (long_period ?st)) (butlast (map close_v ?d4)))))"
    using previous_pair [OF h1 h2 c4] l4 by blast
  then have p4: "previous_averages ?st ?d4 (Num 80) (Num 60) = (Num 40, Num 30)"
    by (simp add: sample_strategy_def flat_candle_def last_n_def arith_mean_def)
  from h1 h2 c3 p3 c4 p4 show ?thesis by blast
qed

subsection \<open>The candle frame\<close>

lemma klines_frame_drop:
  "\<exists>k. klines_frame tn cnt ks = drop k (sort_key openTime (List.map_filter (coerce_row tn) ks))"
proof (cases "int (length (List.map_filter (coerce_row tn) ks)) > cnt")
  case False
  then have "klines_frame tn cnt ks
               = drop 0 (sort_key openTime (List.map_filter (coerce_row tn) ks))"
    by (simp add: klines_frame_def Let_def)
  then show ?thesis by blast
next
  case True
  show ?thesis
  proof (cases "cnt = 0")
    case True
    with \<open>int (length (List.map_filter (coerce_row tn) ks)) > cnt\<close>
    have "klines_frame tn cnt ks
            = drop (length (List.map_filter (coerce_row tn) ks))
                (sort_key openTime (List.map_filter (coerce_row tn) ks))"
      by (simp add: klines_frame_def Let_def df_tail_def)
    then show ?thesis by blast
  next
    case False
    with True show ?thesis
      by (auto simp: klines_frame_def Let_def df_tail_def py_slice_from_def)
  qed
qed

lemma klines_frame_all:
  "int (length (List.map_filter (coerce_row tn) ks)) \<le> cnt \<Longrightarrow>
     klines_frame tn cnt ks = sort_key openTime (List.map_filter (coerce_row tn) ks)"
  by (simp add: klines_frame_def Let_def)

lemma strict_sorted_sort_key:
  assumes "distinct (map f xs)"
  shows "sorted_wrt (<) (map f (sort_key f xs))"
proof -
  have "mset (map f (sort_key f xs)) = mset (map f xs)" by simp
  then have "distinct (map f (sort_key f xs))"
    using assms by (metis mset_eq_imp_distinct_iff)
  then show ?thesis
    by (simp add: strict_sorted_iff)
qed

text \<open>
  Claim C8, as the code has it. The frame is in non-decreasing order of
  \<^verbatim>\<open>openTime\<close>. Nothing removes rows of equal \<^verbatim>\<open>openTime\<close>: a frame that is
  not cut to the requested number of rows holds every usable record. The frame is a
  series in the specification's sense when the usable records have pairwise different
  \<^verbatim>\<open>openTime\<close> values, and an uncut frame only then.
\<close>

theorem candle_series_sorted:
  "sorted (map openTime (klines_frame tn cnt ks))
   \<and> (int (length (List.map_filter (coerce_row tn) ks)) \<le> cnt \<longrightarrow>
        mset (klines_frame tn cnt ks) = mset (List.map_filter (coerce_row tn) ks))
   \<and> (distinct (map openTime (List.map_filter (coerce_row tn) ks)) \<longrightarrow>
        spec_series (klines_frame tn cnt ks))
   \<and> (int (length (List.map_filter (coerce_row tn) ks)) \<le> cnt
        \<and> spec_series (klines_frame tn cnt ks) \<longrightarrow>
        distinct (map openTime (List.map_filter (coerce_row tn) ks)))"
proof -
  obtain k where k: "klines_frame tn cnt ks
                       = drop k (sort_key openTime (List.map_filter (coerce_row tn) ks))"
    using klines_frame_drop by blast
  have a: "sorted (map openTime (klines_frame tn cnt ks))"
    unfolding k drop_map [symmetric] by (rule sorted_wrt_drop) simp
  have b: "int (length (List.map_filter (coerce_row tn) ks)) \<le> cnt \<longrightarrow>
        mset (klines_frame tn cnt ks) = mset (List.map_filter (coerce_row tn) ks)"
    by (simp add: klines_frame_all)
  have c: "distinct (map openTime (List.map_filter (coerce_row tn) ks)) \<longrightarrow>
        spec_series (klines_frame tn cnt ks)"
    unfolding spec_series_def k drop_map [symmetric]
    by (auto intro: sorted_wrt_drop strict_sorted_sort_key)
  have d: "int (length (List.map_filter (coerce_row tn) ks)) \<le> cnt
        \<and> spec_series (klines_frame tn cnt ks) \<longrightarrow>
        distinct (map openTime (List.map_filter (coerce_row tn) ks))"
  proof
    assume h: "int (length (List.map_filter (coerce_row tn) ks)) \<le> cnt
        \<and> spec_series (klines_frame tn cnt ks)"
    then have "klines_frame tn cnt ks = sort_key openTime (List.map_filter (coerce_row tn) ks)"
      by (simp add: klines_frame_all)
    with h have "distinct (map openTime (sort_key openTime (List.map_filter (coerce_row tn) ks)))"
      by (simp add: spec_series_def strict_sorted_iff)
    moreover have "mset (map openTime (sort_key openTime (List.map_filter (coerce_row tn) ks)))
                     = mset (map openTime (List.map_filter (coerce_row tn) ks))"
      by simp
    ultimately show "distinct (map openTime (List.map_filter (coerce_row tn) ks))"
      by (metis mset_eq_imp_distinct_iff)
  qed
  from a b c d show ?thesis by blast
qed

theorem candle_series_sorted_witness:
  "distinct (map openTime (List.map_filter (coerce_row sample_numeric)
                             [flat_kline ''2'' ''10'', flat_kline ''x'' ''10'', flat_kline ''1'' ''20'']))
   \<and> int (length (List.map_filter (coerce_row sample_numeric)
                    [flat_kline ''2'' ''10'', flat_kline ''x'' ''10'', flat_kline ''1'' ''20''])) \<le> 100
   \<and> spec_series (klines_frame sample_numeric 100
                     [flat_kline ''2'' ''10'', flat_kline ''x'' ''10'', flat_kline ''1'' ''20''])
   \<and> map openTime (klines_frame sample_numeric 100
                     [flat_kline ''2'' ''10'', flat_kline ''x'' ''10'', flat_kline ''1'' ''20'']) = [1, 2]"
proof -
  let ?ks = "[flat_kline ''2'' ''10'', flat_kline ''x'' ''10'', flat_kline ''1'' ''20'']"
  have h1: "distinct (map openTime (List.map_filter (coerce_row sample_numeric) ?ks))"
    by (simp add: coerce_row_def flat_kline_def sample_numeric_def)
  have h2: "int (length (List.map_filter (coerce_row sample_numeric) ?ks)) \<le> 100"
    by (simp add: coerce_row_def flat_kline_def sample_numeric_def)
  have v: "map openTime (klines_frame sample_numeric 100 ?ks) = [1, 2]"
    by (simp add: klines_frame_def coerce_row_def
      flat_kline_def sample_numeric_def Let_def)
  from candle_series_sorted [of sample_numeric 100 ?ks] h1 h2 v show ?thesis by blast
qed

text \<open>
  Claim C8 as stated fails: two usable records with the same \<^verbatim>\<open>openTime\<close> are
  both kept.
\<close>

theorem candle_series_duplicates_kept:
  "map openTime (klines_frame sample_numeric 100 [flat_kline ''1'' ''10'', flat_kline ''1'' ''20'']) = [1, 1]
   \<and> \<not> spec_series (klines_frame sample_numeric 100 [flat_kline ''1'' ''10'', flat_kline ''1'' ''20''])"
  by (simp add: klines_frame_def spec_series_def coerce_row_def
      flat_kline_def sample_numeric_def Let_def)

section \<open>Properties of the bot\<close>

lemma close_position_no_price:
  assumes "ticker_reply ex (n_ticker b) = None"
  shows "close_position ex b pid side sz
           = b\<lparr>n_ticker := n_ticker b + 1, calls := calls b @ [EvClose pid, EvTicker None]\<rparr>"
  using assms by (simp add: close_position_def get_current_price_def Let_def)

text \<open>
  Claim C10. When the price fetch inside \<^verbatim>\<open>close_position\<close> returns nothing, the
  method returns having sent no order and having written no row to the CSV history
  and no entry to the manager's \<^verbatim>\<open>trade_history\<close>; its only calls are the close
  action and the ticker request. The loop of the position check then goes on with the
  remaining positions, from a state with the same orders, rows and manager.
\<close>

theorem close_without_price:
  assumes "ticker_reply ex (n_ticker b) = None"
  shows "orders (close_position ex b pid side sz) = orders b
         \<and> csv (close_position ex b pid side sz) = csv b
         \<and> trade_history (risk (close_position ex b pid side sz)) = trade_history (risk b)
         \<and> calls (close_position ex b pid side sz) = calls b @ [EvClose pid, EvTicker None]
         \<and> (pos_size pos = Some sz \<and> pos_price pos = Some entry_price
              \<and> (check_stop_loss (risk b) cp entry_price (pos_side pos) sz
                   \<or> check_take_profit (risk b) cp entry_price (pos_side pos) sz) \<longrightarrow>
             (\<exists>b'. positions_loop ex cp b (pos # rest) = positions_loop ex cp b' rest
                   \<and> orders b' = orders b \<and> csv b' = csv b \<and> risk b' = risk b))"
proof -
  have loop: "\<exists>b'. positions_loop ex cp b (pos # rest) = positions_loop ex cp b' rest
                   \<and> orders b' = orders b \<and> csv b' = csv b \<and> risk b' = risk b"
    if sz: "pos_size pos = Some sz" and pr: "pos_price pos = Some entry_price"
      and trig: "check_stop_loss (risk b) cp entry_price (pos_side pos) sz
                   \<or> check_take_profit (risk b) cp entry_price (pos_side pos) sz"
  proof (cases "check_stop_loss (risk b) cp entry_price (pos_side pos) sz")
    case True
    let ?b1 = "b\<lparr>calls := calls b @ [EvStopLoss (positionId pos) cp True]\<rparr>"
    have t: "ticker_reply ex (n_ticker ?b1) = None" using assms by simp
    have "positions_loop ex cp b (pos # rest)
            = positions_loop ex cp (close_position ex ?b1 (positionId pos) (pos_side pos) sz) rest"
      using sz pr True by (simp add: Let_def)
    then show ?thesis
      by (rule_tac x = "close_position ex ?b1 (positionId pos) (pos_side pos) sz" in exI)
         (simp add: close_position_no_price [OF t])
  next
    case False
    with trig have tp: "check_take_profit (risk b) cp entry_price (pos_side pos) sz" by simp
    let ?b2 = "b\<lparr>calls := calls b @ [EvStopLoss (positionId pos) cp False,
                                   EvTakeProfit (positionId pos) cp True]\<rparr>"
    have t: "ticker_reply ex (n_ticker ?b2) = None" using assms by simp
    have "positions_loop ex cp b (pos # rest)
            = positions_loop ex cp (close_position ex ?b2 (positionId pos) (pos_side pos) sz) rest"
      using sz pr False tp by (simp add: Let_def)
    then show ?thesis
      by (rule_tac x = "close_position ex ?b2 (positionId pos) (pos_side pos) sz" in exI)
         (simp add: close_position_no_price [OF t])
  qed
  from loop show ?thesis
    by (simp add: close_position_no_price [OF assms])
qed

theorem close_without_price_witness:
  "ticker_reply (sample_exchange [sample_position] (\<lambda>n. None)) (n_ticker sample_bot) = None
   \<and> orders (close_position (sample_exchange [sample_position] (\<lambda>n. None)) sample_bot 7 ''BUY'' (1 / 100)) = []
   \<and> csv (close_position (sample_exchange [sample_position] (\<lambda>n. None)) sample_bot 7 ''BUY'' (1 / 100)) = []
   \<and> trade_history (risk (close_position (sample_exchange [sample_position] (\<lambda>n. None)) sample_bot 7 ''BUY'' (1 / 100))) = []
   \<and> calls (close_position (sample_exchange [sample_position] (\<lambda>n. None)) sample_bot 7 ''BUY'' (1 / 100))
       = [EvClose 7, EvTicker None]"
proof -
  have h: "ticker_reply (sample_exchange [sample_position] (\<lambda>n. None)) (n_ticker sample_bot) = None"
    by (simp add: sample_exchange_def)
  from close_without_price [OF h, of 7 "''BUY''" "1 / 100"] h show ?thesis
    by (simp add: sample_bot_def new_risk_manager_def)
qed

subsection \<open>The gates of an order\<close>

lemma check_position_size_after_reversal:
  "check_position_size (snd (check_reversal_count rm side)) x = check_position_size rm x"
  by (simp add: check_position_size_def check_reversal_count_def Let_def)

lemma execute_trade_errors:
  "\<not> check_consecutive_errors (risk b) (consecutive_errors b) \<Longrightarrow>
     execute_trade ex b sg = Exit 1 b"
  by (simp add: execute_trade_def)

lemma execute_trade_reversal:
  assumes "check_consecutive_errors (risk b) (consecutive_errors b)"
    and "\<not> fst (check_reversal_count (risk b) sg)"
  shows "execute_trade ex b sg = Return (b\<lparr>risk := snd (check_reversal_count (risk b) sg)\<rparr>)"
proof -
  obtain ok rm where r: "check_reversal_count (risk b) sg = (ok, rm)"
    by (cases "check_reversal_count (risk b) sg")
  with assms have "\<not> ok" by simp
  with assms(1) r show ?thesis
    by (simp add: execute_trade_def Let_def)
qed

lemma execute_trade_size:
  assumes "check_consecutive_errors (risk b) (consecutive_errors b)"
    and "fst (check_reversal_count (risk b) sg)"
    and "\<not> check_position_size (risk b) (amount b)"
  shows "execute_trade ex b sg = Return (b\<lparr>risk := snd (check_reversal_count (risk b) sg)\<rparr>)"
proof -
  obtain ok rm where r: "check_reversal_count (risk b) sg = (ok, rm)"
    by (cases "check_reversal_count (risk b) sg")
  with assms have ok: "ok" by simp
  have "\<not> check_position_size rm (amount b)"
    using check_position_size_after_reversal [of "risk b" sg "amount b"] r assms(3) by simp
  with assms(1) r ok show ?thesis
    by (simp add: execute_trade_def Let_def)
qed

lemma run_once_signal:
  assumes "status_reply ex = Some ''OPEN''" and "observe to_numeric ex b0 = (Some sg, b)"
  shows "run_once to_numeric ex b0
           = (case execute_trade ex b sg of
                Exit code b4 \<Rightarrow> Exit code b4
              | Return b4 \<Rightarrow> Return (show_assets ex b4))"
  using assms by (simp add: run_once_def)

lemma sample_frame:
  "get_klines_data sample_numeric (Some sample_klines) y 22
     = [\<lparr>openTime = 1, open_v = 10, high_v = 10, low_v = 10, close_v = 10, volume_v = Some 10\<rparr>,
        \<lparr>openTime = 2, open_v = 10, high_v = 10, low_v = 10, close_v = 10, volume_v = Some 10\<rparr>,
        \<lparr>openTime = 3, open_v = 20, high_v = 20, low_v = 20, close_v = 20, volume_v = Some 20\<rparr>]"
  by (simp add: get_klines_data_def sample_klines_def klines_frame_def coerce_row_def
      flat_kline_def sample_numeric_def Let_def)

lemma sample_signal:
  "get_signal sample_numeric (Some sample_klines) y (sample_strategy 1 2)
     = (Some ''BUY'', \<lparr>short_period = 1, long_period = 2, last_signal = Some ''BUY''\<rparr>)"
  by (simp add: get_signal_def sample_strategy_def sample_frame signal_of_frame_def
      calculate_moving_averages_def previous_averages_def cross_signal_def
      py_slice_from_def py_slice_def py_bound_def np_mean_def np_gt_def np_ge_def Let_def)

text \<open>
  Claim C5. \<^verbatim>\<open>execute_trade\<close> tests the consecutive-error gate first: when it
  fails the process exits with status 1 in the state it was called in, so no order is
  sent and the reversal state is untouched. When it passes and the reversal gate or
  then the position-size gate fails, the method returns with only the reversal state
  updated: no order is sent. The list of orders sent changes only when all three gates
  pass. In a run that reached a signal, the first failure ends \<^verbatim>\<open>run_once\<close> with
  exit status 1, the other two let it go on to the balance display.
\<close>

theorem trade_gates:
  "(\<not> check_consecutive_errors (risk b) (consecutive_errors b) \<longrightarrow>
      execute_trade ex b sg = Exit 1 b)
   \<and> (check_consecutive_errors (risk b) (consecutive_errors b)
        \<and> \<not> fst (check_reversal_count (risk b) sg) \<longrightarrow>
      execute_trade ex b sg = Return (b\<lparr>risk := snd (check_reversal_count (risk b) sg)\<rparr>))
   \<and> (check_consecutive_errors (risk b) (consecutive_errors b)
        \<and> fst (check_reversal_count (risk b) sg)
        \<and> \<not> check_position_size (risk b) (amount b) \<longrightarrow>
      execute_trade ex b sg = Return (b\<lparr>risk := snd (check_reversal_count (risk b) sg)\<rparr>))
   \<and> (orders (state_of (execute_trade ex b sg)) \<noteq> orders b \<longrightarrow>
      check_consecutive_errors (risk b) (consecutive_errors b)
      \<and> fst (check_reversal_count (risk b) sg)
      \<and> check_position_size (risk b) (amount b))
   \<and> (status_reply ex = Some ''OPEN'' \<and> observe to_numeric ex b0 = (Some sg, b) \<longrightarrow>
        (\<not> check_consecutive_errors (risk b) (consecutive_errors b) \<longrightarrow>
           run_once to_numeric ex b0 = Exit 1 b)
        \<and> (check_consecutive_errors (risk b) (consecutive_errors b)
            \<and> (\<not> fst (check_reversal_count (risk b) sg)
                 \<or> \<not> check_position_size (risk b) (amount b)) \<longrightarrow>
           run_once to_numeric ex b0
             = Return (show_assets ex (b\<lparr>risk := snd (check_reversal_count (risk b) sg)\<rparr>))))"
proof -
  let ?ce = "check_consecutive_errors (risk b) (consecutive_errors b)"
  let ?rv = "fst (check_reversal_count (risk b) sg)"
  let ?ps = "check_position_size (risk b) (amount b)"
  let ?b1 = "b\<lparr>risk := snd (check_reversal_count (risk b) sg)\<rparr>"
  have e: "\<not> ?ce \<longrightarrow> execute_trade ex b sg = Exit 1 b"
    by (simp add: execute_trade_errors)
  have r: "?ce \<and> \<not> ?rv \<longrightarrow> execute_trade ex b sg = Return ?b1"
    by (simp add: execute_trade_reversal)
  have s: "?ce \<and> ?rv \<and> \<not> ?ps \<longrightarrow> execute_trade ex b sg = Return ?b1"
    by (simp add: execute_trade_size)
  have veto: "execute_trade ex b sg = Return ?b1" if "?ce" and "\<not> ?rv \<or> \<not> ?ps"
    using that r s by blast
  have only: "orders (state_of (execute_trade ex b sg)) \<noteq> orders b \<longrightarrow> ?ce \<and> ?rv \<and> ?ps"
  proof (cases "?ce")
    case False
    with e have "execute_trade ex b sg = Exit 1 b" by blast
    then show ?thesis by (simp add: state_of_def)
  next
    case True
    show ?thesis
    proof (cases "\<not> ?rv \<or> \<not> ?ps")
      case True
      with \<open>?ce\<close> have "execute_trade ex b sg = Return ?b1" by (rule veto)
      then show ?thesis by (simp add: state_of_def)
    next
      case False
      with \<open>?ce\<close> show ?thesis by blast
    qed
  qed
  have run: "status_reply ex = Some ''OPEN'' \<and> observe to_numeric ex b0 = (Some sg, b) \<longrightarrow>
        (\<not> ?ce \<longrightarrow> run_once to_numeric ex b0 = Exit 1 b)
        \<and> (?ce \<and> (\<not> ?rv \<or> \<not> ?ps) \<longrightarrow>
           run_once to_numeric ex b0 = Return (show_assets ex ?b1))"
  proof (intro impI conjI)
    assume h: "status_reply ex = Some ''OPEN'' \<and> observe to_numeric ex b0 = (Some sg, b)"
    then have ro: "run_once to_numeric ex b0
           = (case execute_trade ex b sg of
                Exit code b4 \<Rightarrow> Exit code b4
              | Return b4 \<Rightarrow> Return (show_assets ex b4))"
      by (simp add: run_once_signal)
    {
      assume "\<not> ?ce"
      with e have "execute_trade ex b sg = Exit 1 b" by blast
      with ro show "run_once to_numeric ex b0 = Exit 1 b" by simp
    }
    {
      assume "?ce \<and> (\<not> ?rv \<or> \<not> ?ps)"
      then have "execute_trade ex b sg = Return ?b1" using veto by blast
      with ro show "run_once to_numeric ex b0 = Return (show_assets ex ?b1)" by simp
    }
  qed
  from e r s only run show ?thesis by blast
qed

theorem trade_gates_witness:
  "\<not> check_consecutive_errors (risk (sample_bot\<lparr>consecutive_errors := 3\<rparr>)) 3
   \<and> execute_trade (sample_exchange [] (\<lambda>n. Some 5000000))
         (sample_bot\<lparr>consecutive_errors := 3\<rparr>) ''BUY''
       = Exit 1 (sample_bot\<lparr>consecutive_errors := 3\<rparr>)
   \<and> \<not> fst (check_reversal_count
               ((new_risk_manager 10000 20000 (1 / 100) 1 3)\<lparr>last_order_side := Some ''SELL''\<rparr>)
               ''BUY'')
   \<and> orders (state_of (execute_trade (sample_exchange [] (\<lambda>n. Some 5000000))
         (sample_bot\<lparr>risk := (new_risk_manager 10000 20000 (1 / 100) 1 3)
                                  \<lparr>last_order_side := Some ''SELL''\<rparr>\<rparr>) ''BUY'')) = []
   \<and> \<not> check_position_size (risk sample_bot) 1
   \<and> orders (state_of (execute_trade (sample_exchange [] (\<lambda>n. Some 5000000))
         (sample_bot\<lparr>amount := 1\<rparr>) ''BUY'')) = []
   \<and> orders (state_of (execute_trade (sample_exchange [] (\<lambda>n. Some 5000000))
         sample_bot ''BUY''))
       = [\<lparr>or_side = ''BUY'', or_execution_type = ''MARKET'', or_size = 1 / 1000,
           or_price = None\<rparr>]
   \<and> check_consecutive_errors (risk sample_bot) (consecutive_errors sample_bot)
   \<and> fst (check_reversal_count (risk sample_bot) ''BUY'')
   \<and> check_position_size (risk sample_bot) (amount sample_bot)
   \<and> (\<exists>b. run_once sample_numeric
              ((sample_exchange [] (\<lambda>n. Some 5000000))
                 \<lparr>positions_reply := RequestFailed ''timeout'',
                  klines_today := Some sample_klines\<rparr>)
              (sample_bot\<lparr>strat := sample_strategy 1 2, consecutive_errors := 2\<rparr>)
            = Exit 1 b \<and> orders b = [] \<and> consecutive_errors b = 3)"
proof -
  let ?ex = "sample_exchange [] (\<lambda>n. Some 5000000)"
  let ?bE = "sample_bot\<lparr>consecutive_errors := 3\<rparr>"
  let ?bR = "sample_bot\<lparr>risk := (new_risk_manager 10000 20000 (1 / 100) 1 3)
                                  \<lparr>last_order_side := Some ''SELL''\<rparr>\<rparr>"
  let ?bS = "sample_bot\<lparr>amount := 1\<rparr>"
  have e1: "\<not> check_consecutive_errors (risk ?bE) (consecutive_errors ?bE)"
    by (simp add: sample_bot_def new_risk_manager_def check_consecutive_errors_def)
  have e2: "execute_trade ?ex ?bE ''BUY'' = Exit 1 ?bE"
    using trade_gates [of ?bE ?ex "''BUY''"] e1 by blast
  have r0: "check_consecutive_errors (risk ?bR) (consecutive_errors ?bR)"
    by (simp add: sample_bot_def new_risk_manager_def check_consecutive_errors_def)
  have r1: "\<not> fst (check_reversal_count (risk ?bR) ''BUY'')"
    by (simp add: new_risk_manager_def check_reversal_count_def Let_def)
  have "execute_trade ?ex ?bR ''BUY''
          = Return (?bR\<lparr>risk := snd (check_reversal_count (risk ?bR) ''BUY'')\<rparr>)"
    using trade_gates [of ?bR ?ex "''BUY''"] r0 r1 by blast
  then have r2: "orders (state_of (execute_trade ?ex ?bR ''BUY'')) = []"
    by (simp add: state_of_def sample_bot_def)
  have s0: "check_consecutive_errors (risk ?bS) (consecutive_errors ?bS)"
    by (simp add: sample_bot_def new_risk_manager_def check_consecutive_errors_def)
  have s1: "fst (check_reversal_count (risk ?bS) ''BUY'')"
    by (simp add: sample_bot_def new_risk_manager_def check_reversal_count_def Let_def)
  have s2: "\<not> check_position_size (risk ?bS) (amount ?bS)"
    by (simp add: sample_bot_def new_risk_manager_def check_position_size_def)
  have "execute_trade ?ex ?bS ''BUY''
          = Return (?bS\<lparr>risk := snd (check_reversal_count (risk ?bS) ''BUY'')\<rparr>)"
    using trade_gates [of ?bS ?ex "''BUY''"] s0 s1 s2 by blast
  then have s3: "orders (state_of (execute_trade ?ex ?bS ''BUY'')) = []"
    by (simp add: state_of_def sample_bot_def)
  have p1: "orders (state_of (execute_trade ?ex sample_bot ''BUY''))
       = [\<lparr>or_side = ''BUY'', or_execution_type = ''MARKET'', or_size = 1 / 1000,
           or_price = None\<rparr>]"
    by (simp add: execute_trade_def sample_bot_def sample_exchange_def new_risk_manager_def
        check_consecutive_errors_def check_reversal_count_def check_position_size_def
        get_current_price_def place_order_def save_trade_history_def record_trade_def
        state_of_def Let_def)
  then have "orders (state_of (execute_trade ?ex sample_bot ''BUY'')) \<noteq> orders sample_bot"
    by (simp add: sample_bot_def)
  then have p2: "check_consecutive_errors (risk sample_bot) (consecutive_errors sample_bot)
      \<and> fst (check_reversal_count (risk sample_bot) ''BUY'')
      \<and> check_position_size (risk sample_bot) (amount sample_bot)"
    using trade_gates [of sample_bot ?ex "''BUY''"] by blast
  let ?exF = "?ex\<lparr>positions_reply := RequestFailed ''timeout'',
                  klines_today := Some sample_klines\<rparr>"
  let ?bF = "sample_bot\<lparr>strat := sample_strategy 1 2, consecutive_errors := 2\<rparr>"
  let ?bG = "?bF\<lparr>consecutive_errors := 3, n_ticker := 1, calls := [EvTicker (Some 5000000)],
               strat := \<lparr>short_period = 1, long_period = 2, last_signal = Some ''BUY''\<rparr>\<rparr>"
  have o1: "status_reply ?exF = Some ''OPEN''" by (simp add: sample_exchange_def)
  have o2: "observe sample_numeric ?exF ?bF = (Some ''BUY'', ?bG)"
    by (simp add: observe_def check_existing_positions_def get_current_positions_def
        get_current_price_def sample_exchange_def sample_bot_def sample_signal Let_def)
  have o3: "\<not> check_consecutive_errors (risk ?bG) (consecutive_errors ?bG)"
    by (simp add: sample_bot_def new_risk_manager_def check_consecutive_errors_def)
  have "run_once sample_numeric ?exF ?bF = Exit 1 ?bG"
    using trade_gates [of ?bG ?exF "''BUY''" sample_numeric ?bF] o1 o2 o3 by blast
  then have o4: "\<exists>b. run_once sample_numeric ?exF ?bF = Exit 1 b \<and> orders b = []
                     \<and> consecutive_errors b = 3"
    by (simp add: sample_bot_def)
  from e1 e2 r1 r2 s2 s3 p1 p2 o4 show ?thesis
    by (simp add: sample_bot_def)
qed

subsection \<open>The position check\<close>

lemma decision_calls_limits:
  "stop_loss rm' = stop_loss rm \<Longrightarrow> take_profit rm' = take_profit rm \<Longrightarrow>
     decision_calls rm' cp ps = decision_calls rm cp ps"
  by (induction ps)
     (auto simp: check_stop_loss_def check_take_profit_def split: option.splits)

lemma close_position_limits:
  "stop_loss (risk (close_position ex b pid side sz)) = stop_loss (risk b)
   \<and> take_profit (risk (close_position ex b pid side sz)) = take_profit (risk b)"
  by (simp add: close_position_def get_current_price_def place_order_def
      save_trade_history_def record_trade_def Let_def
      split: option.split private_reply.split)

lemma close_position_n_ticker:
  "n_ticker (close_position ex b pid side sz) = n_ticker b + 1"
  by (simp add: close_position_def get_current_price_def place_order_def
      save_trade_history_def record_trade_def Let_def
      split: option.split private_reply.split)

lemma close_position_calls:
  "\<exists>es. calls (close_position ex b pid side sz) = calls b @ EvClose pid # es
        \<and> (\<forall>e \<in> set es. exchange_call e)"
  by (simp add: close_position_def get_current_price_def place_order_def
      save_trade_history_def record_trade_def Let_def
      split: option.split private_reply.split)

lemma loop_malformed:
  "pos_size pos = None \<or> pos_price pos = None \<Longrightarrow>
     positions_loop ex cp b (pos # rest) = b"
  by (auto split: option.splits)

lemma loop_stop_loss:
  "pos_size pos = Some sz \<Longrightarrow> pos_price pos = Some ep \<Longrightarrow>
   check_stop_loss (risk b) cp ep (pos_side pos) sz \<Longrightarrow>
     positions_loop ex cp b (pos # rest)
       = positions_loop ex cp
           (close_position ex (b\<lparr>calls := calls b @ [EvStopLoss (positionId pos) cp True]\<rparr>)
              (positionId pos) (pos_side pos) sz) rest"
  by (simp add: Let_def)

lemma loop_take_profit:
  "pos_size pos = Some sz \<Longrightarrow> pos_price pos = Some ep \<Longrightarrow>
   \<not> check_stop_loss (risk b) cp ep (pos_side pos) sz \<Longrightarrow>
   check_take_profit (risk b) cp ep (pos_side pos) sz \<Longrightarrow>
     positions_loop ex cp b (pos # rest)
       = positions_loop ex cp
           (close_position ex
              (b\<lparr>calls := calls b @ [EvStopLoss (positionId pos) cp False,
                                      EvTakeProfit (positionId pos) cp True]\<rparr>)
              (positionId pos) (pos_side pos) sz) rest"
  by (simp add: Let_def)

lemma loop_no_trigger:
  "pos_size pos = Some sz \<Longrightarrow> pos_price pos = Some ep \<Longrightarrow>
   \<not> check_stop_loss (risk b) cp ep (pos_side pos) sz \<Longrightarrow>
   \<not> check_take_profit (risk b) cp ep (pos_side pos) sz \<Longrightarrow>
     positions_loop ex cp b (pos # rest)
       = positions_loop ex cp
           (b\<lparr>calls := calls b @ [EvStopLoss (positionId pos) cp False,
                                   EvTakeProfit (positionId pos) cp False]\<rparr>) rest"
  by (simp add: Let_def)

lemma decision_malformed:
  "pos_size pos = None \<or> pos_price pos = None \<Longrightarrow> decision_calls rm cp (pos # rest) = []"
  by (auto split: option.splits)

lemma positions_loop_trace:
  "\<exists>es. calls (positions_loop ex cp b ps) = calls b @ es
        \<and> [e \<leftarrow> es. \<not> exchange_call e] = decision_calls (risk b) cp ps
        \<and> n_ticker (positions_loop ex cp b ps)
            = n_ticker b + length (filter close_action (decision_calls (risk b) cp ps))"
proof (induction ps arbitrary: b)
  case Nil
  show ?case by simp
next
  case (Cons pos rest)
  let ?pid = "positionId pos"
  show ?case
  proof (cases "pos_size pos = None \<or> pos_price pos = None")
    case True
    then show ?thesis
      by (simp only: loop_malformed decision_malformed) simp
  next
    case False
    then obtain sz ep where sz: "pos_size pos = Some sz" and ep: "pos_price pos = Some ep"
      by auto
    have closing: "\<exists>es. calls (positions_loop ex cp (close_position ex b1 ?pid (pos_side pos) sz) rest)
                         = calls b @ es
        \<and> [e \<leftarrow> es. \<not> exchange_call e] = checks @ EvClose ?pid # decision_calls (risk b) cp rest
        \<and> n_ticker (positions_loop ex cp (close_position ex b1 ?pid (pos_side pos) sz) rest)
            = n_ticker b + 1
                + length (filter close_action (decision_calls (risk b) cp rest))"
      if b1: "b1 = b\<lparr>calls := calls b @ checks\<rparr>" and chk: "\<forall>e \<in> set checks. \<not> exchange_call e"
      for b1 checks
    proof -
      let ?bc = "close_position ex b1 ?pid (pos_side pos) sz"
      obtain es0 where es0: "calls ?bc = calls b1 @ EvClose ?pid # es0"
        and ex0: "\<forall>e \<in> set es0. exchange_call e"
        using close_position_calls by blast
      have lim: "decision_calls (risk ?bc) cp rest = decision_calls (risk b) cp rest"
        using close_position_limits [of ex b1 ?pid "pos_side pos" sz] b1
        by (intro decision_calls_limits) simp_all
      obtain es1 where es1: "calls (positions_loop ex cp ?bc rest) = calls ?bc @ es1"
        and f1: "[e \<leftarrow> es1. \<not> exchange_call e] = decision_calls (risk ?bc) cp rest"
        and n1: "n_ticker (positions_loop ex cp ?bc rest)
            = n_ticker ?bc + length (filter close_action (decision_calls (risk ?bc) cp rest))"
        using Cons.IH [of ?bc] by blast
      have c: "calls (positions_loop ex cp ?bc rest)
                 = calls b @ (checks @ EvClose ?pid # es0 @ es1)"
        using es1 es0 b1 by simp
      have f0: "[e \<leftarrow> es0. \<not> exchange_call e] = []"
        using ex0 by (simp add: filter_empty_conv)
      have fc: "[e \<leftarrow> checks. \<not> exchange_call e] = checks"
        using chk by (simp add: filter_id_conv)
      have f: "[e \<leftarrow> checks @ EvClose ?pid # es0 @ es1. \<not> exchange_call e]
                 = checks @ EvClose ?pid # decision_calls (risk b) cp rest"
        using f0 fc f1 lim by simp
      have n: "n_ticker (positions_loop ex cp ?bc rest)
            = n_ticker b + 1 + length (filter close_action (decision_calls (risk b) cp rest))"
        using n1 lim close_position_n_ticker [of ex b1 ?pid "pos_side pos" sz] b1 by simp
      from c f n show ?thesis by blast
    qed
    show ?thesis
    proof (cases "check_stop_loss (risk b) cp ep (pos_side pos) sz")
      case True
      have d: "decision_calls (risk b) cp (pos # rest)
                 = [EvStopLoss ?pid cp True] @ EvClose ?pid # decision_calls (risk b) cp rest"
        using sz ep True by simp
      have l: "positions_loop ex cp b (pos # rest)
                 = positions_loop ex cp
                     (close_position ex (b\<lparr>calls := calls b @ [EvStopLoss ?pid cp True]\<rparr>)
                        ?pid (pos_side pos) sz) rest"
        using sz ep True by (rule loop_stop_loss)
      show ?thesis
        unfolding l d
        using closing [of "b\<lparr>calls := calls b @ [EvStopLoss ?pid cp True]\<rparr>"
                          "[EvStopLoss ?pid cp True]"]
        by simp
    next
      case sl: False
      show ?thesis
      proof (cases "check_take_profit (risk b) cp ep (pos_side pos) sz")
        case True
        let ?chk = "[EvStopLoss ?pid cp False, EvTakeProfit ?pid cp True]"
        have d: "decision_calls (risk b) cp (pos # rest)
                   = ?chk @ EvClose ?pid # decision_calls (risk b) cp rest"
          using sz ep sl True by simp
        have l: "positions_loop ex cp b (pos # rest)
                   = positions_loop ex cp
                       (close_position ex (b\<lparr>calls := calls b @ ?chk\<rparr>)
                          ?pid (pos_side pos) sz) rest"
          using sz ep sl True by (rule loop_take_profit)
        show ?thesis
          unfolding l d
          using closing [of "b\<lparr>calls := calls b @ ?chk\<rparr>" ?chk]
          by simp
      next
        case False
        let ?chk = "[EvStopLoss ?pid cp False, EvTakeProfit ?pid cp False]"
        let ?b2 = "b\<lparr>calls := calls b @ ?chk\<rparr>"
        have d: "decision_calls (risk b) cp (pos # rest)
                   = ?chk @ decision_calls (risk b) cp rest"
          using sz ep sl False by simp
        have l: "positions_loop ex cp b (pos # rest) = positions_loop ex cp ?b2 rest"
          using sz ep sl False by (rule loop_no_trigger)
        obtain es1 where es1: "calls (positions_loop ex cp ?b2 rest) = calls ?b2 @ es1"
          and f1: "[e \<leftarrow> es1. \<not> exchange_call e] = decision_calls (risk ?b2) cp rest"
          and n1: "n_ticker (positions_loop ex cp ?b2 rest)
              = n_ticker ?b2 + length (filter close_action (decision_calls (risk ?b2) cp rest))"
          using Cons.IH [of ?b2] by blast
        have c: "calls (positions_loop ex cp ?b2 rest) = calls b @ (?chk @ es1)"
          using es1 by simp
        have f: "[e \<leftarrow> ?chk @ es1. \<not> exchange_call e] = ?chk @ decision_calls (risk b) cp rest"
          using f1 by simp
        have n: "n_ticker (positions_loop ex cp ?b2 rest)
              = n_ticker b + length (filter close_action (?chk @ decision_calls (risk b) cp rest))"
          using n1 by simp
        show ?thesis
          unfolding l d using c f n by blast
      qed
    qed
  qed
qed

lemma decision_calls_prices:
  "e \<in> set (decision_calls rm cp ps) \<Longrightarrow> check_call e \<Longrightarrow> check_price e = Some cp"
  by (induction ps) (auto split: option.splits if_splits)

lemma decision_calls_closes:
  "length (filter (close_call pid) (decision_calls rm cp ps))
     \<le> length (filter (\<lambda>p. positionId p = pid) ps)"
  by (induction ps) (auto split: option.splits)

lemma check_existing_positions_loop:
  assumes "positions_reply ex = Replied ps" and "ps \<noteq> []"
    and "ticker_reply ex (n_ticker b) = Some cp"
  shows "check_existing_positions ex b
           = positions_loop ex cp
               (b\<lparr>consecutive_errors := 0, n_ticker := n_ticker b + 1,
                  calls := calls b @ [EvTicker (Some cp)]\<rparr>) ps"
  using assms
  by (simp add: check_existing_positions_def get_current_positions_def
      get_current_price_def Let_def)

text \<open>
  Claim C6, as the code has it. When the exchange lists at least one position and the
  price fetch before the loop returns a price, the calls of
  \<^verbatim>\<open>check_existing_positions\<close> are that one ticker call, followed by the checks and
  close actions of the specification's position check at that price (stop-loss first,
  take-profit only after a false stop-loss, a close at the first true check), with calls
  to the exchange in between. Every check is made at the price fetched before the loop.
  Each close action fetches the price once more, so the check makes one ticker call
  plus one per close action. No position is closed more often than it is listed.
\<close>

theorem position_check_calls:
  assumes "positions_reply ex = Replied ps" and "ps \<noteq> []"
    and "ticker_reply ex (n_ticker b) = Some cp"
  shows "\<exists>es. calls (check_existing_positions ex b) = calls b @ EvTicker (Some cp) # es
           \<and> [e \<leftarrow> es. \<not> exchange_call e] = decision_calls (risk b) cp ps
           \<and> n_ticker (check_existing_positions ex b)
               = n_ticker b + 1 + length (filter close_action [e \<leftarrow> es. \<not> exchange_call e])
           \<and> (\<forall>e \<in> set es. check_call e \<longrightarrow> check_price e = Some cp)
           \<and> (\<forall>pid. length (filter (close_call pid) es)
                       \<le> length (filter (\<lambda>p. positionId p = pid) ps))"
proof -
  let ?b1 = "b\<lparr>consecutive_errors := 0, n_ticker := n_ticker b + 1,
                calls := calls b @ [EvTicker (Some cp)]\<rparr>"
  have start: "check_existing_positions ex b = positions_loop ex cp ?b1 ps"
    using assms by (rule check_existing_positions_loop)
  obtain es where c: "calls (positions_loop ex cp ?b1 ps) = calls ?b1 @ es"
    and f: "[e \<leftarrow> es. \<not> exchange_call e] = decision_calls (risk ?b1) cp ps"
    and n: "n_ticker (positions_loop ex cp ?b1 ps)
              = n_ticker ?b1
                  + length (filter close_action (decision_calls (risk ?b1) cp ps))"
    using positions_loop_trace [of ex cp ?b1 ps] by blast
  have f': "[e \<leftarrow> es. \<not> exchange_call e] = decision_calls (risk b) cp ps"
    using f by simp
  have c': "calls (check_existing_positions ex b) = calls b @ EvTicker (Some cp) # es"
    using c start by simp
  have n': "n_ticker (check_existing_positions ex b)
               = n_ticker b + 1 + length (filter close_action [e \<leftarrow> es. \<not> exchange_call e])"
    using n start f' by simp
  have p: "\<forall>e \<in> set es. check_call e \<longrightarrow> check_price e = Some cp"
  proof (intro ballI impI)
    fix e assume e: "e \<in> set es" and ck: "check_call e"
    from ck have "\<not> exchange_call e" by (cases e) simp_all
    with e have "e \<in> set [e \<leftarrow> es. \<not> exchange_call e]" by simp
    with f' have "e \<in> set (decision_calls (risk b) cp ps)" by simp
    then show "check_price e = Some cp" using ck by (rule decision_calls_prices)
  qed
  have q: "\<forall>pid. length (filter (close_call pid) es)
                       \<le> length (filter (\<lambda>p. positionId p = pid) ps)"
  proof
    fix pid
    have "filter (close_call pid) es = filter (close_call pid) [e \<leftarrow> es. \<not> exchange_call e]"
    proof -
      have "\<And>e. close_call pid e \<Longrightarrow> \<not> exchange_call e"
        by (case_tac e) simp_all
      then show ?thesis by (auto simp: filter_filter intro: filter_cong)
    qed
    then show "length (filter (close_call pid) es)
                 \<le> length (filter (\<lambda>p. positionId p = pid) ps)"
      using decision_calls_closes [of pid "risk b" cp ps] f' by simp
  qed
  from c' f' n' p q show ?thesis by blast
qed

theorem position_check_calls_witness:
  "positions_reply (sample_exchange [sample_position] (\<lambda>n. Some 4900000))
     = Replied [sample_position]
   \<and> [sample_position] \<noteq> []
   \<and> ticker_reply (sample_exchange [sample_position] (\<lambda>n. Some 4900000)) (n_ticker sample_bot)
       = Some 4900000
   \<and> (\<exists>es. calls (check_existing_positions
                     (sample_exchange [sample_position] (\<lambda>n. Some 4900000)) sample_bot)
              = calls sample_bot @ EvTicker (Some 4900000) # es
            \<and> [e \<leftarrow> es. \<not> exchange_call e] = [EvStopLoss 7 4900000 True, EvClose 7]
            \<and> n_ticker (check_existing_positions
                          (sample_exchange [sample_position] (\<lambda>n. Some 4900000)) sample_bot)
                = 2)"
proof -
  let ?ex = "sample_exchange [sample_position] (\<lambda>n. Some 4900000)"
  have h1: "positions_reply ?ex = Replied [sample_position]"
    by (simp add: sample_exchange_def)
  have h2: "[sample_position] \<noteq> []" by simp
  have h3: "ticker_reply ?ex (n_ticker sample_bot) = Some 4900000"
    by (simp add: sample_exchange_def)
  have d: "decision_calls (risk sample_bot) 4900000 [sample_position]
             = [EvStopLoss 7 4900000 True, EvClose 7]"
    by (simp add: sample_bot_def sample_position_def new_risk_manager_def
        check_stop_loss_def loss_jpy_def)
  have n0: "n_ticker sample_bot = 0" by (simp add: sample_bot_def)
  obtain es where c: "calls (check_existing_positions ?ex sample_bot)
                        = calls sample_bot @ EvTicker (Some 4900000) # es"
    and f: "[e \<leftarrow> es. \<not> exchange_call e] = decision_calls (risk sample_bot) 4900000 [sample_position]"
    and n: "n_ticker (check_existing_positions ?ex sample_bot)
              = n_ticker sample_bot + 1
                  + length (filter close_action [e \<leftarrow> es. \<not> exchange_call e])"
    using position_check_calls [OF h1 h2 h3] by blast
  have n2: "n_ticker (check_existing_positions ?ex sample_bot) = 2"
    using n f d n0 by simp
  from c f d n2 have "\<exists>es. calls (check_existing_positions ?ex sample_bot)
              = calls sample_bot @ EvTicker (Some 4900000) # es
            \<and> [e \<leftarrow> es. \<not> exchange_call e] = [EvStopLoss 7 4900000 True, EvClose 7]
            \<and> n_ticker (check_existing_positions ?ex sample_bot) = 2"
    by auto
  with h1 h2 h3 show ?thesis by blast
qed

text \<open>
  Claim C6 as stated fails in the number of price fetches: with one position whose
  stop-loss triggers, the check calls the ticker twice, the second time inside
  \<^verbatim>\<open>close_position\<close>.
\<close>

theorem position_check_two_fetches:
  "\<not> single_price_fetch (sample_exchange [sample_position] (\<lambda>n. Some 4900000)) sample_bot"
  by (simp add: single_price_fetch_def check_existing_positions_def get_current_positions_def
      get_current_price_def sample_exchange_def sample_bot_def sample_position_def
      new_risk_manager_def check_stop_loss_def loss_jpy_def close_position_def
      place_order_def save_trade_history_def record_trade_def Let_def)

end
